theory Spec2Isabelle
  imports Main "HOL-Library.Word"
begin

section \<open>Settings resolution for the UnixFS options (core/coreiface/options/unixfs.go)\<close>

text \<open>
  The package resolves a caller-supplied sequence of option functions into a settings
  record and, for Add, Write and Mkdir, a CID prefix. Go's \<^verbatim>\<open>int\<close> is modelled as
  \<^typ>\<open>int\<close> (the code only stores it and compares it with the constants -1, 0 and 1, no
  arithmetic is done on it), \<^verbatim>\<open>uint64\<close> as \<^typ>\<open>64 word\<close> and \<^verbatim>\<open>int64\<close> as
  \<^typ>\<open>64 word\<close> too, read as a signed value by \<^term>\<open>sint\<close> (the resolvers only store it).
\<close>

subsection \<open>Errors\<close>

text \<open>
  The resolvers build three errors, by \<^verbatim>\<open>fmt.Errorf\<close> and \<^verbatim>\<open>errors.New\<close>; the source has
  no names for them, the constructors carry the names of the error taxonomy and
  \<open>Error\<close> gives the message text of the source. \<open>OptionError\<close> stands for any error an
  option function itself returns.
\<close>

datatype error =
    ConflictingOption
  | UnsupportedCombination
  | UnknownCidVersion int
  | OptionError string

fun digits :: "nat \<Rightarrow> string" where
  "digits n = (if n < 10 then [char_of (48 + n)] else digits (n div 10) @ [char_of (48 + n mod 10)])"

declare digits.simps [simp del]

definition fmt_d :: "int \<Rightarrow> string" where
  "fmt_d i = (if i < 0 then ''-'' @ digits (nat (- i)) else digits (nat i))"

fun Error :: "error \<Rightarrow> string" where
  "Error ConflictingOption = ''nocopy option requires '--raw-leaves' to be enabled as well''"
| "Error UnsupportedCombination = ''CIDv0 only supports sha2-256''"
| "Error (UnknownCidVersion v) = ''unknown CID version: '' @ fmt_d v"
| "Error (OptionError msg) = msg"

subsection \<open>Multihash codes and the CID prefix\<close>

text \<open>
  Modelled from the spec: the code of the standard 256-bit hash function, \<^verbatim>\<open>mh.SHA2_256\<close>
  of go-multihash, whose declaration is not part of the sources at hand; the multicodec
  table gives 0x12, and 0x13 for sha2-512. The resolvers only compare a hash code with
  \<open>SHA2_256\<close>.
\<close>

definition SHA2_256 :: "64 word" where
  "SHA2_256 = 0x12"

definition SHA2_512 :: "64 word" where
  "SHA2_512 = 0x13"

text \<open>
  \<^verbatim>\<open>cid.Prefix\<close> of go-cid: version, codec, hash function code and hash length, where the
  length -1 means that the length is taken from the digest.
\<close>

record Prefix =
  pfx_Version :: "64 word"
  pfx_Codec :: "64 word"
  pfx_MhType :: "64 word"
  pfx_MhLength :: int

text \<open>The zero value \<^verbatim>\<open>cid.Prefix{}\<close>, returned beside every error.\<close>

definition Prefix_zero :: Prefix where
  "Prefix_zero = \<lparr>pfx_Version = 0, pfx_Codec = 0, pfx_MhType = 0, pfx_MhLength = 0\<rparr>"

definition DagProtobuf :: "64 word" where
  "DagProtobuf = 0x70"

text \<open>
  Modelled from the spec: \<^verbatim>\<open>dag.PrefixForCidVersion\<close> of boxo's merkledag package, which
  the resolvers call with the resolved version only and whose body is not part of the
  sources at hand. Prefix derivation takes a version that must be 0 or 1, fails with
  the unknown-version error for any other value, and returns a prefix template whose
  hash-length field is the compute-from-digest sentinel and whose codec is implicit (the
  protobuf DAG codec). The resolvers overwrite the hash code and the length afterwards.
\<close>

definition PrefixForCidVersion :: "int \<Rightarrow> error + Prefix" where
  "PrefixForCidVersion version =
     (if version = 0 then
        Inr \<lparr>pfx_Version = 0, pfx_Codec = DagProtobuf, pfx_MhType = SHA2_256, pfx_MhLength = - 1\<rparr>
      else if version = 1 then
        Inr \<lparr>pfx_Version = 1, pfx_Codec = DagProtobuf, pfx_MhType = SHA2_256, pfx_MhLength = - 1\<rparr>
      else Inl (UnknownCidVersion version))"

subsection \<open>Applying the options\<close>

text \<open>
  An option is a function that mutates the settings behind a pointer and returns an
  error or nil; here it maps the settings to the error or to the mutated settings. Every
  resolver runs the same loop over the options, in the caller's order, and returns at
  the first error.
\<close>

fun applyOpts :: "('s \<Rightarrow> error + 's) list \<Rightarrow> 's \<Rightarrow> error + 's" where
  "applyOpts [] options = Inr options"
| "applyOpts (opt # opts) options =
     (case opt options of
        Inl err \<Rightarrow> Inl err
      | Inr options' \<Rightarrow> applyOpts opts options')"

subsection \<open>Add\<close>

text \<open>
  \<open>Layout\<close> is an integer type with two named values; the resolver only stores it.
\<close>

datatype Layout = BalancedLayout | TrickleLayout

text \<open>
  \<open>add_Events\<close> is the send-only channel of the caller, identified by a number; \<open>None\<close> is
  the nil channel.
\<close>

record UnixfsAddSettings =
  add_CidVersion :: int
  add_MhType :: "64 word"
  add_Inline :: bool
  add_InlineLimit :: int
  add_RawLeaves :: bool
  add_RawLeavesSet :: bool
  add_Chunker :: string
  add_Layout :: Layout
  add_Pin :: bool
  add_OnlyHash :: bool
  add_FsCache :: bool
  add_NoCopy :: bool
  add_Events :: "nat option"
  add_Silent :: bool
  add_Progress :: bool
  add_ToFiles :: string

type_synonym UnixfsAddOption = "UnixfsAddSettings \<Rightarrow> error + UnixfsAddSettings"

text \<open>The record the resolver starts from; \<open>ToFiles\<close> is not listed there and is empty.\<close>

definition UnixfsAddDefaults :: UnixfsAddSettings where
  "UnixfsAddDefaults =
     \<lparr>add_CidVersion = - 1, add_MhType = SHA2_256,
      add_Inline = False, add_InlineLimit = 32, add_RawLeaves = False, add_RawLeavesSet = False,
      add_Chunker = ''size-262144'', add_Layout = BalancedLayout,
      add_Pin = False, add_OnlyHash = False, add_FsCache = False, add_NoCopy = False,
      add_Events = None, add_Silent = False, add_Progress = False, add_ToFiles = ''''\<rparr>"

text \<open>nocopy -> rawblocks.\<close>

definition addNoCopyRule :: "UnixfsAddSettings \<Rightarrow> error + UnixfsAddSettings" where
  "addNoCopyRule options =
     (if add_NoCopy options \<and> \<not> add_RawLeaves options then
        (if add_RawLeavesSet options then Inl ConflictingOption
         else Inr (options\<lparr>add_RawLeaves := True\<rparr>))
      else Inr options)"

text \<open>(hash != "sha2-256") -> CIDv1, else default to CIDv0.\<close>

definition addCidVersionRule :: "UnixfsAddSettings \<Rightarrow> error + UnixfsAddSettings" where
  "addCidVersionRule options =
     (if add_MhType options \<noteq> SHA2_256 then
        (if add_CidVersion options = 0 then Inl UnsupportedCombination
         else if add_CidVersion options = 1 \<or> add_CidVersion options = - 1 then
           Inr (options\<lparr>add_CidVersion := 1\<rparr>)
         else Inl (UnknownCidVersion (add_CidVersion options)))
      else
        (if add_CidVersion options < 0 then Inr (options\<lparr>add_CidVersion := 0\<rparr>)
         else Inr options))"

text \<open>cidV1 -> raw blocks (by default).\<close>

definition addRawLeavesRule :: "UnixfsAddSettings \<Rightarrow> UnixfsAddSettings" where
  "addRawLeavesRule options =
     (if add_CidVersion options > 0 \<and> \<not> add_RawLeavesSet options then
        options\<lparr>add_RawLeaves := True\<rparr>
      else options)"

definition UnixfsAddOptions ::
  "UnixfsAddOption list \<Rightarrow> UnixfsAddSettings option \<times> Prefix \<times> error option" where
  "UnixfsAddOptions opts =
     (case applyOpts opts UnixfsAddDefaults of
        Inl err \<Rightarrow> (None, Prefix_zero, Some err)
      | Inr options \<Rightarrow>
     (case addNoCopyRule options of
        Inl err \<Rightarrow> (None, Prefix_zero, Some err)
      | Inr options \<Rightarrow>
     (case addCidVersionRule options of
        Inl err \<Rightarrow> (None, Prefix_zero, Some err)
      | Inr options \<Rightarrow>
     (let options = addRawLeavesRule options in
      case PrefixForCidVersion (add_CidVersion options) of
        Inl err \<Rightarrow> (None, Prefix_zero, Some err)
      | Inr prefix \<Rightarrow>
          (Some options,
           prefix\<lparr>pfx_MhType := add_MhType options, pfx_MhLength := - 1\<rparr>,
           None)))))"

text \<open>The option constructors of Add, methods of the value \<^verbatim>\<open>Unixfs\<close>.\<close>

definition Unixfs_CidVersion :: "int \<Rightarrow> UnixfsAddOption" where
  "Unixfs_CidVersion version = (\<lambda>settings. Inr (settings\<lparr>add_CidVersion := version\<rparr>))"

definition Unixfs_Hash :: "64 word \<Rightarrow> UnixfsAddOption" where
  "Unixfs_Hash mhtype = (\<lambda>settings. Inr (settings\<lparr>add_MhType := mhtype\<rparr>))"

definition Unixfs_RawLeaves :: "bool \<Rightarrow> UnixfsAddOption" where
  "Unixfs_RawLeaves enable =
     (\<lambda>settings. Inr (settings\<lparr>add_RawLeaves := enable, add_RawLeavesSet := True\<rparr>))"

definition Unixfs_Inline :: "bool \<Rightarrow> UnixfsAddOption" where
  "Unixfs_Inline enable = (\<lambda>settings. Inr (settings\<lparr>add_Inline := enable\<rparr>))"

definition Unixfs_InlineLimit :: "int \<Rightarrow> UnixfsAddOption" where
  "Unixfs_InlineLimit limit = (\<lambda>settings. Inr (settings\<lparr>add_InlineLimit := limit\<rparr>))"

definition Unixfs_Chunker :: "string \<Rightarrow> UnixfsAddOption" where
  "Unixfs_Chunker chunker = (\<lambda>settings. Inr (settings\<lparr>add_Chunker := chunker\<rparr>))"

definition Unixfs_Layout :: "Layout \<Rightarrow> UnixfsAddOption" where
  "Unixfs_Layout layout = (\<lambda>settings. Inr (settings\<lparr>add_Layout := layout\<rparr>))"

definition Unixfs_Pin :: "bool \<Rightarrow> UnixfsAddOption" where
  "Unixfs_Pin pin = (\<lambda>settings. Inr (settings\<lparr>add_Pin := pin\<rparr>))"

definition Unixfs_HashOnly :: "bool \<Rightarrow> UnixfsAddOption" where
  "Unixfs_HashOnly hashOnly = (\<lambda>settings. Inr (settings\<lparr>add_OnlyHash := hashOnly\<rparr>))"

definition Unixfs_Events :: "nat option \<Rightarrow> UnixfsAddOption" where
  "Unixfs_Events sink = (\<lambda>settings. Inr (settings\<lparr>add_Events := sink\<rparr>))"

definition Unixfs_Silent :: "bool \<Rightarrow> UnixfsAddOption" where
  "Unixfs_Silent silent = (\<lambda>settings. Inr (settings\<lparr>add_Silent := silent\<rparr>))"

definition Unixfs_Progress :: "bool \<Rightarrow> UnixfsAddOption" where
  "Unixfs_Progress enable = (\<lambda>settings. Inr (settings\<lparr>add_Progress := enable\<rparr>))"

definition Unixfs_ToFiles :: "string \<Rightarrow> UnixfsAddOption" where
  "Unixfs_ToFiles path = (\<lambda>settings. Inr (settings\<lparr>add_ToFiles := path\<rparr>))"

definition Unixfs_FsCache :: "bool \<Rightarrow> UnixfsAddOption" where
  "Unixfs_FsCache enable = (\<lambda>settings. Inr (settings\<lparr>add_FsCache := enable\<rparr>))"

definition Unixfs_Nocopy :: "bool \<Rightarrow> UnixfsAddOption" where
  "Unixfs_Nocopy enable = (\<lambda>settings. Inr (settings\<lparr>add_NoCopy := enable\<rparr>))"

subsection \<open>Write\<close>

record UnixfsWriteSettings =
  write_Offset :: "64 word"
  write_Create :: bool
  write_Parents :: bool
  write_Truncate :: bool
  write_Count :: "64 word"
  write_RawLeaves :: bool
  write_CidVersion :: int
  write_MhType :: "64 word"

type_synonym UnixfsWriteOption = "UnixfsWriteSettings \<Rightarrow> error + UnixfsWriteSettings"

definition UnixfsWriteDefaults :: UnixfsWriteSettings where
  "UnixfsWriteDefaults =
     \<lparr>write_Offset = 0, write_Create = False, write_Parents = False, write_Truncate = False,
      write_Count = 0, write_RawLeaves = False, write_CidVersion = - 1, write_MhType = SHA2_256\<rparr>"

text \<open>(hash != "sha2-256") -> CIDv1, else default to CIDv0.\<close>

definition writeCidVersionRule :: "UnixfsWriteSettings \<Rightarrow> error + UnixfsWriteSettings" where
  "writeCidVersionRule options =
     (if write_MhType options \<noteq> SHA2_256 then
        (if write_CidVersion options = 0 then Inl UnsupportedCombination
         else if write_CidVersion options = 1 \<or> write_CidVersion options = - 1 then
           Inr (options\<lparr>write_CidVersion := 1\<rparr>)
         else Inl (UnknownCidVersion (write_CidVersion options)))
      else
        (if write_CidVersion options < 0 then Inr (options\<lparr>write_CidVersion := 0\<rparr>)
         else Inr options))"

text \<open>
  cidV1 -> raw blocks (by default). The Write settings have no \<open>RawLeavesSet\<close> field: the
  test is on \<open>RawLeaves\<close> itself.
\<close>

definition writeRawLeavesRule :: "UnixfsWriteSettings \<Rightarrow> UnixfsWriteSettings" where
  "writeRawLeavesRule options =
     (if write_CidVersion options > 0 \<and> \<not> write_RawLeaves options then
        options\<lparr>write_RawLeaves := True\<rparr>
      else options)"

definition UnixfsWriteOptions ::
  "UnixfsWriteOption list \<Rightarrow> UnixfsWriteSettings option \<times> Prefix \<times> error option" where
  "UnixfsWriteOptions opts =
     (case applyOpts opts UnixfsWriteDefaults of
        Inl err \<Rightarrow> (None, Prefix_zero, Some err)
      | Inr options \<Rightarrow>
     (case writeCidVersionRule options of
        Inl err \<Rightarrow> (None, Prefix_zero, Some err)
      | Inr options \<Rightarrow>
     (let options = writeRawLeavesRule options in
      case PrefixForCidVersion (write_CidVersion options) of
        Inl err \<Rightarrow> (None, Prefix_zero, Some err)
      | Inr prefix \<Rightarrow>
          (Some options,
           prefix\<lparr>pfx_MhType := write_MhType options, pfx_MhLength := - 1\<rparr>,
           None))))"

definition Unixfs_WriteOffset :: "64 word \<Rightarrow> UnixfsWriteOption" where
  "Unixfs_WriteOffset offset = (\<lambda>settings. Inr (settings\<lparr>write_Offset := offset\<rparr>))"

definition Unixfs_Create :: "bool \<Rightarrow> UnixfsWriteOption" where
  "Unixfs_Create create = (\<lambda>settings. Inr (settings\<lparr>write_Create := create\<rparr>))"

definition Unixfs_WriteParents :: "bool \<Rightarrow> UnixfsWriteOption" where
  "Unixfs_WriteParents parents = (\<lambda>settings. Inr (settings\<lparr>write_Parents := parents\<rparr>))"

definition Unixfs_Truncate :: "bool \<Rightarrow> UnixfsWriteOption" where
  "Unixfs_Truncate truncate' = (\<lambda>settings. Inr (settings\<lparr>write_Truncate := truncate'\<rparr>))"

definition Unixfs_WriteRawLeaves :: "bool \<Rightarrow> UnixfsWriteOption" where
  "Unixfs_WriteRawLeaves rawLeaves = (\<lambda>settings. Inr (settings\<lparr>write_RawLeaves := rawLeaves\<rparr>))"

definition Unixfs_WriteCount :: "64 word \<Rightarrow> UnixfsWriteOption" where
  "Unixfs_WriteCount count = (\<lambda>settings. Inr (settings\<lparr>write_Count := count\<rparr>))"

definition Unixfs_WriteCidVersion :: "int \<Rightarrow> UnixfsWriteOption" where
  "Unixfs_WriteCidVersion cidVersion = (\<lambda>settings. Inr (settings\<lparr>write_CidVersion := cidVersion\<rparr>))"

definition Unixfs_WriteHash :: "64 word \<Rightarrow> UnixfsWriteOption" where
  "Unixfs_WriteHash mhtype = (\<lambda>settings. Inr (settings\<lparr>write_MhType := mhtype\<rparr>))"

subsection \<open>Mkdir\<close>

record UnixfsMkdirSettings =
  mkdir_Parents :: bool
  mkdir_CidVersion :: int
  mkdir_MhType :: "64 word"

type_synonym UnixfsMkdirOption = "UnixfsMkdirSettings \<Rightarrow> error + UnixfsMkdirSettings"

definition UnixfsMkdirDefaults :: UnixfsMkdirSettings where
  "UnixfsMkdirDefaults =
     \<lparr>mkdir_Parents = False, mkdir_CidVersion = - 1, mkdir_MhType = SHA2_256\<rparr>"

text \<open>(hash != "sha2-256") -> CIDv1, else default to CIDv0.\<close>

definition mkdirCidVersionRule :: "UnixfsMkdirSettings \<Rightarrow> error + UnixfsMkdirSettings" where
  "mkdirCidVersionRule options =
     (if mkdir_MhType options \<noteq> SHA2_256 then
        (if mkdir_CidVersion options = 0 then Inl UnsupportedCombination
         else if mkdir_CidVersion options = 1 \<or> mkdir_CidVersion options = - 1 then
           Inr (options\<lparr>mkdir_CidVersion := 1\<rparr>)
         else Inl (UnknownCidVersion (mkdir_CidVersion options)))
      else
        (if mkdir_CidVersion options < 0 then Inr (options\<lparr>mkdir_CidVersion := 0\<rparr>)
         else Inr options))"

definition UnixfsMkdirOptions ::
  "UnixfsMkdirOption list \<Rightarrow> UnixfsMkdirSettings option \<times> Prefix \<times> error option" where
  "UnixfsMkdirOptions opts =
     (case applyOpts opts UnixfsMkdirDefaults of
        Inl err \<Rightarrow> (None, Prefix_zero, Some err)
      | Inr options \<Rightarrow>
     (case mkdirCidVersionRule options of
        Inl err \<Rightarrow> (None, Prefix_zero, Some err)
      | Inr options \<Rightarrow>
     (case PrefixForCidVersion (mkdir_CidVersion options) of
        Inl err \<Rightarrow> (None, Prefix_zero, Some err)
      | Inr prefix \<Rightarrow>
          (Some options,
           prefix\<lparr>pfx_MhType := mkdir_MhType options, pfx_MhLength := - 1\<rparr>,
           None))))"

definition Unixfs_Parents :: "bool \<Rightarrow> UnixfsMkdirOption" where
  "Unixfs_Parents parents = (\<lambda>settings. Inr (settings\<lparr>mkdir_Parents := parents\<rparr>))"

definition Unixfs_MkdirCidVersion :: "int \<Rightarrow> UnixfsMkdirOption" where
  "Unixfs_MkdirCidVersion cidVer = (\<lambda>settings. Inr (settings\<lparr>mkdir_CidVersion := cidVer\<rparr>))"

definition Unixfs_MkdirHash :: "64 word \<Rightarrow> UnixfsMkdirOption" where
  "Unixfs_MkdirHash mhtype = (\<lambda>settings. Inr (settings\<lparr>mkdir_MhType := mhtype\<rparr>))"

subsection \<open>Ls, Stat, Read, Cp and Rm\<close>

text \<open>These resolvers apply the options to the defaults and return the settings or the error.\<close>

definition resolved :: "error + 's \<Rightarrow> 's option \<times> error option" where
  "resolved r = (case r of Inl err \<Rightarrow> (None, Some err) | Inr options \<Rightarrow> (Some options, None))"

record UnixfsLsSettings =
  ls_ResolveChildren :: bool
  ls_UseCumulativeSize :: bool

type_synonym UnixfsLsOption = "UnixfsLsSettings \<Rightarrow> error + UnixfsLsSettings"

text \<open>Only \<open>ResolveChildren\<close> is listed in the literal; \<open>UseCumulativeSize\<close> has the zero value.\<close>

definition UnixfsLsDefaults :: UnixfsLsSettings where
  "UnixfsLsDefaults = \<lparr>ls_ResolveChildren = True, ls_UseCumulativeSize = False\<rparr>"

definition UnixfsLsOptions :: "UnixfsLsOption list \<Rightarrow> UnixfsLsSettings option \<times> error option" where
  "UnixfsLsOptions opts = resolved (applyOpts opts UnixfsLsDefaults)"

definition Unixfs_ResolveChildren :: "bool \<Rightarrow> UnixfsLsOption" where
  "Unixfs_ResolveChildren resolve = (\<lambda>settings. Inr (settings\<lparr>ls_ResolveChildren := resolve\<rparr>))"

definition Unixfs_UseCumulativeSize :: "bool \<Rightarrow> UnixfsLsOption" where
  "Unixfs_UseCumulativeSize use = (\<lambda>settings. Inr (settings\<lparr>ls_UseCumulativeSize := use\<rparr>))"

record UnixfsStatSettings =
  stat_Format :: string
  stat_Hash :: bool
  stat_Size :: bool
  stat_WithLocal :: bool

type_synonym UnixfsStatOption = "UnixfsStatSettings \<Rightarrow> error + UnixfsStatSettings"

definition UnixfsStatDefaults :: UnixfsStatSettings where
  "UnixfsStatDefaults =
     \<lparr>stat_Format = '''', stat_Hash = False, stat_Size = False, stat_WithLocal = False\<rparr>"

definition UnixfsStatOptions :: "UnixfsStatOption list \<Rightarrow> UnixfsStatSettings option \<times> error option" where
  "UnixfsStatOptions opts = resolved (applyOpts opts UnixfsStatDefaults)"

definition Unixfs_Format :: "string \<Rightarrow> UnixfsStatOption" where
  "Unixfs_Format format = (\<lambda>settings. Inr (settings\<lparr>stat_Format := format\<rparr>))"

definition Unixfs_StatHash :: "bool \<Rightarrow> UnixfsStatOption" where
  "Unixfs_StatHash hash = (\<lambda>settings. Inr (settings\<lparr>stat_Hash := hash\<rparr>))"

definition Unixfs_StatSize :: "bool \<Rightarrow> UnixfsStatOption" where
  "Unixfs_StatSize size' = (\<lambda>settings. Inr (settings\<lparr>stat_Size := size'\<rparr>))"

definition Unixfs_WithLocal :: "bool \<Rightarrow> UnixfsStatOption" where
  "Unixfs_WithLocal withLocal = (\<lambda>settings. Inr (settings\<lparr>stat_WithLocal := withLocal\<rparr>))"

record UnixfsReadSettings =
  read_Offset :: "64 word"
  read_Count :: "64 word"

type_synonym UnixfsReadOption = "UnixfsReadSettings \<Rightarrow> error + UnixfsReadSettings"

definition UnixfsReadDefaults :: UnixfsReadSettings where
  "UnixfsReadDefaults = \<lparr>read_Offset = 0, read_Count = 0\<rparr>"

definition UnixfsReadOptions :: "UnixfsReadOption list \<Rightarrow> UnixfsReadSettings option \<times> error option" where
  "UnixfsReadOptions opts = resolved (applyOpts opts UnixfsReadDefaults)"

definition Unixfs_Offset :: "64 word \<Rightarrow> UnixfsReadOption" where
  "Unixfs_Offset offset = (\<lambda>settings. Inr (settings\<lparr>read_Offset := offset\<rparr>))"

definition Unixfs_Count :: "64 word \<Rightarrow> UnixfsReadOption" where
  "Unixfs_Count count = (\<lambda>settings. Inr (settings\<lparr>read_Count := count\<rparr>))"

record UnixfsCpSettings =
  cp_Parents :: bool

type_synonym UnixfsCpOption = "UnixfsCpSettings \<Rightarrow> error + UnixfsCpSettings"

definition UnixfsCpDefaults :: UnixfsCpSettings where
  "UnixfsCpDefaults = \<lparr>cp_Parents = False\<rparr>"

definition UnixfsCpOptions :: "UnixfsCpOption list \<Rightarrow> UnixfsCpSettings option \<times> error option" where
  "UnixfsCpOptions opts = resolved (applyOpts opts UnixfsCpDefaults)"

definition Unixfs_CpParents :: "bool \<Rightarrow> UnixfsCpOption" where
  "Unixfs_CpParents parent = (\<lambda>settings. Inr (settings\<lparr>cp_Parents := parent\<rparr>))"

record UnixfsRmSettings =
  rm_Recursive :: bool
  rm_Force :: bool

type_synonym UnixfsRmOption = "UnixfsRmSettings \<Rightarrow> error + UnixfsRmSettings"

definition UnixfsRmDefaults :: UnixfsRmSettings where
  "UnixfsRmDefaults = \<lparr>rm_Recursive = False, rm_Force = False\<rparr>"

definition UnixfsRmOptions :: "UnixfsRmOption list \<Rightarrow> UnixfsRmSettings option \<times> error option" where
  "UnixfsRmOptions opts = resolved (applyOpts opts UnixfsRmDefaults)"

definition Unixfs_Recursive :: "bool \<Rightarrow> UnixfsRmOption" where
  "Unixfs_Recursive recursive = (\<lambda>settings. Inr (settings\<lparr>rm_Recursive := recursive\<rparr>))"

definition Unixfs_Force :: "bool \<Rightarrow> UnixfsRmOption" where
  "Unixfs_Force force = (\<lambda>settings. Inr (settings\<lparr>rm_Force := force\<rparr>))"

subsection \<open>Sequences of calls of the option constructors\<close>

text \<open>
  An option is a closure and cannot be inspected. To speak of the last option of a
  sequence that sets a field, a caller's sequence is written as a list of constructor
  calls with their arguments; \<open>addOption\<close>, \<open>writeOption\<close>, ... give the option that
  each call builds.
\<close>

datatype AddCall =
    C_CidVersion int
  | C_Hash "64 word"
  | C_RawLeaves bool
  | C_Inline bool
  | C_InlineLimit int
  | C_Chunker string
  | C_Layout Layout
  | C_Pin bool
  | C_HashOnly bool
  | C_Events "nat option"
  | C_Silent bool
  | C_Progress bool
  | C_ToFiles string
  | C_FsCache bool
  | C_Nocopy bool

fun addOption :: "AddCall \<Rightarrow> UnixfsAddOption" where
  "addOption (C_CidVersion version) = Unixfs_CidVersion version"
| "addOption (C_Hash mhtype) = Unixfs_Hash mhtype"
| "addOption (C_RawLeaves enable) = Unixfs_RawLeaves enable"
| "addOption (C_Inline enable) = Unixfs_Inline enable"
| "addOption (C_InlineLimit limit) = Unixfs_InlineLimit limit"
| "addOption (C_Chunker chunker) = Unixfs_Chunker chunker"
| "addOption (C_Layout layout) = Unixfs_Layout layout"
| "addOption (C_Pin pin) = Unixfs_Pin pin"
| "addOption (C_HashOnly hashOnly) = Unixfs_HashOnly hashOnly"
| "addOption (C_Events sink) = Unixfs_Events sink"
| "addOption (C_Silent silent) = Unixfs_Silent silent"
| "addOption (C_Progress enable) = Unixfs_Progress enable"
| "addOption (C_ToFiles path) = Unixfs_ToFiles path"
| "addOption (C_FsCache enable) = Unixfs_FsCache enable"
| "addOption (C_Nocopy enable) = Unixfs_Nocopy enable"

datatype WriteCall =
    C_WriteOffset "64 word"
  | C_Create bool
  | C_WriteParents bool
  | C_Truncate bool
  | C_WriteRawLeaves bool
  | C_WriteCount "64 word"
  | C_WriteCidVersion int
  | C_WriteHash "64 word"

fun writeOption :: "WriteCall \<Rightarrow> UnixfsWriteOption" where
  "writeOption (C_WriteOffset offset) = Unixfs_WriteOffset offset"
| "writeOption (C_Create create) = Unixfs_Create create"
| "writeOption (C_WriteParents parents) = Unixfs_WriteParents parents"
| "writeOption (C_Truncate truncate') = Unixfs_Truncate truncate'"
| "writeOption (C_WriteRawLeaves rawLeaves) = Unixfs_WriteRawLeaves rawLeaves"
| "writeOption (C_WriteCount count) = Unixfs_WriteCount count"
| "writeOption (C_WriteCidVersion cidVersion) = Unixfs_WriteCidVersion cidVersion"
| "writeOption (C_WriteHash mhtype) = Unixfs_WriteHash mhtype"

datatype MkdirCall = C_Parents bool | C_MkdirCidVersion int | C_MkdirHash "64 word"

fun mkdirOption :: "MkdirCall \<Rightarrow> UnixfsMkdirOption" where
  "mkdirOption (C_Parents parents) = Unixfs_Parents parents"
| "mkdirOption (C_MkdirCidVersion cidVer) = Unixfs_MkdirCidVersion cidVer"
| "mkdirOption (C_MkdirHash mhtype) = Unixfs_MkdirHash mhtype"

datatype LsCall = C_ResolveChildren bool | C_UseCumulativeSize bool

fun lsOption :: "LsCall \<Rightarrow> UnixfsLsOption" where
  "lsOption (C_ResolveChildren resolve) = Unixfs_ResolveChildren resolve"
| "lsOption (C_UseCumulativeSize use) = Unixfs_UseCumulativeSize use"

datatype StatCall = C_Format string | C_StatHash bool | C_StatSize bool | C_WithLocal bool

fun statOption :: "StatCall \<Rightarrow> UnixfsStatOption" where
  "statOption (C_Format format) = Unixfs_Format format"
| "statOption (C_StatHash hash) = Unixfs_StatHash hash"
| "statOption (C_StatSize size') = Unixfs_StatSize size'"
| "statOption (C_WithLocal withLocal) = Unixfs_WithLocal withLocal"

datatype ReadCall = C_Offset "64 word" | C_Count "64 word"

fun readOption :: "ReadCall \<Rightarrow> UnixfsReadOption" where
  "readOption (C_Offset offset) = Unixfs_Offset offset"
| "readOption (C_Count count) = Unixfs_Count count"

datatype CpCall = C_CpParents bool

fun cpOption :: "CpCall \<Rightarrow> UnixfsCpOption" where
  "cpOption (C_CpParents parent) = Unixfs_CpParents parent"

datatype RmCall = C_Recursive bool | C_Force bool

fun rmOption :: "RmCall \<Rightarrow> UnixfsRmOption" where
  "rmOption (C_Recursive recursive) = Unixfs_Recursive recursive"
| "rmOption (C_Force force) = Unixfs_Force force"

text \<open>The last of the values given for a field, or the field's default when none is given.\<close>

definition lastOr :: "'a \<Rightarrow> 'a list \<Rightarrow> 'a" where
  "lastOr d vs = (if vs = [] then d else last vs)"

section \<open>Properties of the resolvers\<close>

subsection \<open>Auxiliary facts\<close>

lemmas add_defs = UnixfsAddOptions_def addNoCopyRule_def addCidVersionRule_def
  addRawLeavesRule_def PrefixForCidVersion_def Let_def

lemmas write_defs = UnixfsWriteOptions_def writeCidVersionRule_def writeRawLeavesRule_def
  PrefixForCidVersion_def Let_def

lemmas mkdir_defs = UnixfsMkdirOptions_def mkdirCidVersionRule_def PrefixForCidVersion_def Let_def

lemmas add_option_defs = Unixfs_CidVersion_def Unixfs_Hash_def Unixfs_RawLeaves_def
  Unixfs_Inline_def Unixfs_InlineLimit_def Unixfs_Chunker_def Unixfs_Layout_def Unixfs_Pin_def
  Unixfs_HashOnly_def Unixfs_Events_def Unixfs_Silent_def Unixfs_Progress_def Unixfs_ToFiles_def
  Unixfs_FsCache_def Unixfs_Nocopy_def

lemmas write_option_defs = Unixfs_WriteOffset_def Unixfs_Create_def Unixfs_WriteParents_def
  Unixfs_Truncate_def Unixfs_WriteRawLeaves_def Unixfs_WriteCount_def Unixfs_WriteCidVersion_def
  Unixfs_WriteHash_def

lemmas mkdir_option_defs = Unixfs_Parents_def Unixfs_MkdirCidVersion_def Unixfs_MkdirHash_def

lemma SHA2_512_neq_SHA2_256: "SHA2_512 \<noteq> SHA2_256"
  by (simp add: SHA2_512_def SHA2_256_def)

text \<open>The message texts of the errors, with the version printed as by \<^verbatim>\<open>%d\<close>.\<close>

lemma error_messages:
  "Error UnsupportedCombination = ''CIDv0 only supports sha2-256''
   \<and> Error (UnknownCidVersion 2) = ''unknown CID version: 2''
   \<and> Error (UnknownCidVersion (- 17)) = ''unknown CID version: -17''"
  by code_simp

text \<open>
  What each prefix-deriving resolver returns, in terms of the settings \<open>s\<close> that the
  options leave behind: the error of the first rule that rejects \<open>s\<close>, or the resolved
  settings and the prefix.
\<close>

lemma add_error:
  "applyOpts opts UnixfsAddDefaults = Inl e \<Longrightarrow>
   UnixfsAddOptions opts = (None, Prefix_zero, Some e)"
  by (simp add: UnixfsAddOptions_def)

lemma add_result:
  "applyOpts opts UnixfsAddDefaults = Inr s \<Longrightarrow>
   UnixfsAddOptions opts =
     (if add_NoCopy s \<and> \<not> add_RawLeaves s \<and> add_RawLeavesSet s then
        (None, Prefix_zero, Some ConflictingOption)
      else if add_MhType s \<noteq> SHA2_256 \<and> add_CidVersion s = 0 then
        (None, Prefix_zero, Some UnsupportedCombination)
      else if add_MhType s \<noteq> SHA2_256 \<and> add_CidVersion s \<noteq> 1 \<and> add_CidVersion s \<noteq> - 1 then
        (None, Prefix_zero, Some (UnknownCidVersion (add_CidVersion s)))
      else if add_MhType s = SHA2_256 \<and> add_CidVersion s > 1 then
        (None, Prefix_zero, Some (UnknownCidVersion (add_CidVersion s)))
      else
        (Some (s\<lparr>add_CidVersion :=
                   (if add_MhType s \<noteq> SHA2_256 \<or> add_CidVersion s = 1 then 1 else 0),
                 add_RawLeaves :=
                   (add_RawLeaves s \<or> add_NoCopy s
                    \<or> ((add_MhType s \<noteq> SHA2_256 \<or> add_CidVersion s = 1)
                        \<and> \<not> add_RawLeavesSet s))\<rparr>),
         \<lparr>pfx_Version = (if add_MhType s \<noteq> SHA2_256 \<or> add_CidVersion s = 1 then 1 else 0),
          pfx_Codec = DagProtobuf, pfx_MhType = add_MhType s, pfx_MhLength = - 1\<rparr>,
         None))"
  by (auto simp: add_defs)

lemma write_error:
  "applyOpts opts UnixfsWriteDefaults = Inl e \<Longrightarrow>
   UnixfsWriteOptions opts = (None, Prefix_zero, Some e)"
  by (simp add: UnixfsWriteOptions_def)

lemma write_result:
  "applyOpts opts UnixfsWriteDefaults = Inr s \<Longrightarrow>
   UnixfsWriteOptions opts =
     (if write_MhType s \<noteq> SHA2_256 \<and> write_CidVersion s = 0 then
        (None, Prefix_zero, Some UnsupportedCombination)
      else if write_MhType s \<noteq> SHA2_256 \<and> write_CidVersion s \<noteq> 1
              \<and> write_CidVersion s \<noteq> - 1 then
        (None, Prefix_zero, Some (UnknownCidVersion (write_CidVersion s)))
      else if write_MhType s = SHA2_256 \<and> write_CidVersion s > 1 then
        (None, Prefix_zero, Some (UnknownCidVersion (write_CidVersion s)))
      else
        (Some (s\<lparr>write_CidVersion :=
                   (if write_MhType s \<noteq> SHA2_256 \<or> write_CidVersion s = 1 then 1 else 0),
                 write_RawLeaves :=
                   (write_RawLeaves s \<or> write_MhType s \<noteq> SHA2_256 \<or> write_CidVersion s = 1)\<rparr>),
         \<lparr>pfx_Version = (if write_MhType s \<noteq> SHA2_256 \<or> write_CidVersion s = 1 then 1 else 0),
          pfx_Codec = DagProtobuf, pfx_MhType = write_MhType s, pfx_MhLength = - 1\<rparr>,
         None))"
  by (auto simp: write_defs)

lemma mkdir_error:
  "applyOpts opts UnixfsMkdirDefaults = Inl e \<Longrightarrow>
   UnixfsMkdirOptions opts = (None, Prefix_zero, Some e)"
  by (simp add: UnixfsMkdirOptions_def)

lemma mkdir_result:
  "applyOpts opts UnixfsMkdirDefaults = Inr s \<Longrightarrow>
   UnixfsMkdirOptions opts =
     (if mkdir_MhType s \<noteq> SHA2_256 \<and> mkdir_CidVersion s = 0 then
        (None, Prefix_zero, Some UnsupportedCombination)
      else if mkdir_MhType s \<noteq> SHA2_256 \<and> mkdir_CidVersion s \<noteq> 1
              \<and> mkdir_CidVersion s \<noteq> - 1 then
        (None, Prefix_zero, Some (UnknownCidVersion (mkdir_CidVersion s)))
      else if mkdir_MhType s = SHA2_256 \<and> mkdir_CidVersion s > 1 then
        (None, Prefix_zero, Some (UnknownCidVersion (mkdir_CidVersion s)))
      else
        (Some (s\<lparr>mkdir_CidVersion :=
                   (if mkdir_MhType s \<noteq> SHA2_256 \<or> mkdir_CidVersion s = 1 then 1 else 0)\<rparr>),
         \<lparr>pfx_Version = (if mkdir_MhType s \<noteq> SHA2_256 \<or> mkdir_CidVersion s = 1 then 1 else 0),
          pfx_Codec = DagProtobuf, pfx_MhType = mkdir_MhType s, pfx_MhLength = - 1\<rparr>,
         None))"
  by (auto simp: mkdir_defs)

lemma add_success:
  "snd (snd (UnixfsAddOptions opts)) = None \<Longrightarrow>
   \<exists>r p. UnixfsAddOptions opts = (Some r, p, None)
     \<and> (add_CidVersion r = 0 \<or> add_CidVersion r = 1)
     \<and> pfx_MhLength p = - 1 \<and> pfx_MhType p = add_MhType r
     \<and> (add_NoCopy r \<longrightarrow> add_RawLeaves r)"
  by (cases "applyOpts opts UnixfsAddDefaults")
    (auto simp: add_error add_result split: if_splits)

lemma write_success:
  "snd (snd (UnixfsWriteOptions opts)) = None \<Longrightarrow>
   \<exists>r p. UnixfsWriteOptions opts = (Some r, p, None)
     \<and> (write_CidVersion r = 0 \<or> write_CidVersion r = 1)
     \<and> pfx_MhLength p = - 1 \<and> pfx_MhType p = write_MhType r
     \<and> (write_CidVersion r > 0 \<longrightarrow> write_RawLeaves r)"
  by (cases "applyOpts opts UnixfsWriteDefaults")
    (auto simp: write_error write_result split: if_splits)

lemma mkdir_success:
  "snd (snd (UnixfsMkdirOptions opts)) = None \<Longrightarrow>
   \<exists>r p. UnixfsMkdirOptions opts = (Some r, p, None)
     \<and> (mkdir_CidVersion r = 0 \<or> mkdir_CidVersion r = 1)
     \<and> pfx_MhLength p = - 1 \<and> pfx_MhType p = mkdir_MhType r"
  by (cases "applyOpts opts UnixfsMkdirDefaults")
    (auto simp: mkdir_error mkdir_result split: if_splits)

lemma add_failure:
  "snd (snd (UnixfsAddOptions opts)) \<noteq> None \<Longrightarrow>
   fst (UnixfsAddOptions opts) = None \<and> fst (snd (UnixfsAddOptions opts)) = Prefix_zero"
  by (cases "applyOpts opts UnixfsAddDefaults")
    (simp_all add: add_error add_result split: if_splits)

lemma write_failure:
  "snd (snd (UnixfsWriteOptions opts)) \<noteq> None \<Longrightarrow>
   fst (UnixfsWriteOptions opts) = None \<and> fst (snd (UnixfsWriteOptions opts)) = Prefix_zero"
  by (cases "applyOpts opts UnixfsWriteDefaults")
    (simp_all add: write_error write_result split: if_splits)

lemma mkdir_failure:
  "snd (snd (UnixfsMkdirOptions opts)) \<noteq> None \<Longrightarrow>
   fst (UnixfsMkdirOptions opts) = None \<and> fst (snd (UnixfsMkdirOptions opts)) = Prefix_zero"
  by (cases "applyOpts opts UnixfsMkdirDefaults")
    (simp_all add: mkdir_error mkdir_result split: if_splits)

text \<open>The settings that some short option sequences leave behind, used as test inputs.\<close>

lemma apply_add_empty: "applyOpts [] UnixfsAddDefaults = Inr UnixfsAddDefaults"
  by simp

lemma apply_add_hash:
  "applyOpts [Unixfs_Hash h] UnixfsAddDefaults = Inr (UnixfsAddDefaults\<lparr>add_MhType := h\<rparr>)"
  by (simp add: add_option_defs)

lemma apply_add_hash_version:
  "applyOpts [Unixfs_Hash h, Unixfs_CidVersion v] UnixfsAddDefaults
     = Inr (UnixfsAddDefaults\<lparr>add_MhType := h, add_CidVersion := v\<rparr>)"
  by (simp add: add_option_defs)

lemma apply_add_version:
  "applyOpts [Unixfs_CidVersion v] UnixfsAddDefaults
     = Inr (UnixfsAddDefaults\<lparr>add_CidVersion := v\<rparr>)"
  by (simp add: add_option_defs)

lemma apply_add_version_raw:
  "applyOpts [Unixfs_CidVersion v, Unixfs_RawLeaves b] UnixfsAddDefaults
     = Inr (UnixfsAddDefaults\<lparr>add_CidVersion := v, add_RawLeaves := b, add_RawLeavesSet := True\<rparr>)"
  by (simp add: add_option_defs)


lemma apply_add_nocopy_raw:
  "applyOpts [Unixfs_Nocopy n, Unixfs_RawLeaves b] UnixfsAddDefaults
     = Inr (UnixfsAddDefaults\<lparr>add_NoCopy := n, add_RawLeaves := b, add_RawLeavesSet := True\<rparr>)"
  by (simp add: add_option_defs)

lemma apply_write_empty: "applyOpts [] UnixfsWriteDefaults = Inr UnixfsWriteDefaults"
  by simp

lemma apply_write_hash_version:
  "applyOpts [Unixfs_WriteHash h, Unixfs_WriteCidVersion v] UnixfsWriteDefaults
     = Inr (UnixfsWriteDefaults\<lparr>write_MhType := h, write_CidVersion := v\<rparr>)"
  by (simp add: write_option_defs)

lemma apply_mkdir_empty: "applyOpts [] UnixfsMkdirDefaults = Inr UnixfsMkdirDefaults"
  by simp

lemma apply_mkdir_hash_version:
  "applyOpts [Unixfs_MkdirHash h, Unixfs_MkdirCidVersion v] UnixfsMkdirDefaults
     = Inr (UnixfsMkdirDefaults\<lparr>mkdir_MhType := h, mkdir_CidVersion := v\<rparr>)"
  by (simp add: mkdir_option_defs)

subsection \<open>The CID version under a non-default hash function\<close>

text \<open>
  Claim C1, as amended. Add resolver: for every option sequence that applies without
  error, leaves a hash function other than sha2-256 and passes the no-copy rule (not:
  noCopy true, rawLeaves false and rawLeaves explicitly set), a final cidVersion of 0
  fails with the UnsupportedCombination error, a cidVersion of 1 or the unset sentinel -1
  resolves successfully with cidVersion 1, and any other cidVersion fails with the
  UnknownCidVersion error for that version.
\<close>

theorem add_nonstandard_hash_cid_version:
  assumes "applyOpts opts UnixfsAddDefaults = Inr s"
    and "add_MhType s \<noteq> SHA2_256"
    and "\<not> (add_NoCopy s \<and> \<not> add_RawLeaves s \<and> add_RawLeavesSet s)"
  shows "(add_CidVersion s = 0 \<longrightarrow>
           UnixfsAddOptions opts = (None, Prefix_zero, Some UnsupportedCombination))
       \<and> (add_CidVersion s = 1 \<or> add_CidVersion s = - 1 \<longrightarrow>
           map_option add_CidVersion (fst (UnixfsAddOptions opts)) = Some 1
           \<and> snd (snd (UnixfsAddOptions opts)) = None)
       \<and> (add_CidVersion s \<noteq> 0 \<and> add_CidVersion s \<noteq> 1 \<and> add_CidVersion s \<noteq> - 1 \<longrightarrow>
           UnixfsAddOptions opts
             = (None, Prefix_zero, Some (UnknownCidVersion (add_CidVersion s))))"
  using assms(2,3) by (auto simp: add_result [OF assms(1)])

text \<open>
  The three cases at concrete inputs, with sha2-512: an explicit version 0, no version
  and an explicit version 1, and an explicit version 2.
\<close>

theorem add_nonstandard_hash_cid_version_witness:
  "UnixfsAddOptions [Unixfs_Hash SHA2_512, Unixfs_CidVersion 0]
     = (None, Prefix_zero, Some UnsupportedCombination)
   \<and> map_option add_CidVersion (fst (UnixfsAddOptions [Unixfs_Hash SHA2_512])) = Some 1
   \<and> snd (snd (UnixfsAddOptions [Unixfs_Hash SHA2_512])) = None
   \<and> map_option add_CidVersion
       (fst (UnixfsAddOptions [Unixfs_Hash SHA2_512, Unixfs_CidVersion 1])) = Some 1
   \<and> UnixfsAddOptions [Unixfs_Hash SHA2_512, Unixfs_CidVersion 2]
     = (None, Prefix_zero, Some (UnknownCidVersion 2))"
  using add_nonstandard_hash_cid_version [OF apply_add_hash_version [of SHA2_512 0]]
    add_nonstandard_hash_cid_version [OF apply_add_hash [of SHA2_512]]
    add_nonstandard_hash_cid_version [OF apply_add_hash_version [of SHA2_512 1]]
    add_nonstandard_hash_cid_version [OF apply_add_hash_version [of SHA2_512 2]]
  by (simp add: UnixfsAddDefaults_def SHA2_512_neq_SHA2_256)

text \<open>
  The claim as stated fails where the no-copy rule rejects the sequence first: with
  sha2-512, an explicit version 0, noCopy and an explicit rawLeaves false, the error is
  ConflictingOption, not UnsupportedCombination.
\<close>

theorem add_nonstandard_hash_conflict_counterexample:
  "applyOpts
      [Unixfs_Hash SHA2_512, Unixfs_CidVersion 0, Unixfs_Nocopy True, Unixfs_RawLeaves False]
      UnixfsAddDefaults
    = Inr (UnixfsAddDefaults\<lparr>add_MhType := SHA2_512, add_CidVersion := 0, add_NoCopy := True,
             add_RawLeaves := False, add_RawLeavesSet := True\<rparr>)
   \<and> SHA2_512 \<noteq> SHA2_256
   \<and> UnixfsAddOptions
        [Unixfs_Hash SHA2_512, Unixfs_CidVersion 0, Unixfs_Nocopy True, Unixfs_RawLeaves False]
      = (None, Prefix_zero, Some ConflictingOption)
   \<and> ConflictingOption \<noteq> UnsupportedCombination"
  by (simp add: add_defs SHA2_512_neq_SHA2_256 UnixfsAddDefaults_def add_option_defs)

subsection \<open>No-copy and raw leaves\<close>




subsection \<open>CIDv1 and raw leaves\<close>

text \<open>
  Claim C3. Add resolver: for every option sequence that resolves successfully with a
  cidVersion greater than 0, the resolved rawLeaves is true when the RawLeaves option
  was never applied (RawLeavesSet false), and it remains false when the caller's last
  RawLeaves option was RawLeaves(false): the explicit setting wins over the CIDv1
  default. (A successful resolution with an explicit false has noCopy false.)
\<close>

theorem add_cidv1_raw_leaves:
  assumes "applyOpts opts UnixfsAddDefaults = Inr s"
    and "UnixfsAddOptions opts = (Some r, p, None)"
    and "add_CidVersion r > 0"
  shows "(\<not> add_RawLeavesSet s \<longrightarrow> add_RawLeaves r)
       \<and> (add_RawLeavesSet s \<and> \<not> add_RawLeaves s \<longrightarrow> \<not> add_RawLeaves r \<and> \<not> add_NoCopy s)"
  using assms(2,3) by (auto simp: add_result [OF assms(1)] split: if_splits)

theorem add_cidv1_raw_leaves_witness:
  "UnixfsAddOptions [Unixfs_CidVersion 1]
     = (Some (UnixfsAddDefaults\<lparr>add_CidVersion := 1, add_RawLeaves := True\<rparr>),
        \<lparr>pfx_Version = 1, pfx_Codec = DagProtobuf, pfx_MhType = SHA2_256, pfx_MhLength = - 1\<rparr>,
        None)
   \<and> add_RawLeaves (UnixfsAddDefaults\<lparr>add_CidVersion := 1, add_RawLeaves := True\<rparr>)
   \<and> UnixfsAddOptions [Unixfs_CidVersion 1, Unixfs_RawLeaves False]
     = (Some (UnixfsAddDefaults\<lparr>add_CidVersion := 1, add_RawLeavesSet := True\<rparr>),
        \<lparr>pfx_Version = 1, pfx_Codec = DagProtobuf, pfx_MhType = SHA2_256, pfx_MhLength = - 1\<rparr>,
        None)
   \<and> \<not> add_RawLeaves (UnixfsAddDefaults\<lparr>add_CidVersion := 1, add_RawLeavesSet := True\<rparr>)"
proof -
  have r1: "UnixfsAddOptions [Unixfs_CidVersion 1]
     = (Some (UnixfsAddDefaults\<lparr>add_CidVersion := 1, add_RawLeaves := True\<rparr>),
        \<lparr>pfx_Version = 1, pfx_Codec = DagProtobuf, pfx_MhType = SHA2_256, pfx_MhLength = - 1\<rparr>,
        None)"
    by (simp add: add_result [OF apply_add_version] UnixfsAddDefaults_def)
  have r2: "UnixfsAddOptions [Unixfs_CidVersion 1, Unixfs_RawLeaves False]
     = (Some (UnixfsAddDefaults\<lparr>add_CidVersion := 1, add_RawLeavesSet := True\<rparr>),
        \<lparr>pfx_Version = 1, pfx_Codec = DagProtobuf, pfx_MhType = SHA2_256, pfx_MhLength = - 1\<rparr>,
        None)"
    by (simp add: add_result [OF apply_add_version_raw] UnixfsAddDefaults_def)
  show ?thesis
    using r1 r2 add_cidv1_raw_leaves [OF apply_add_version r1]
      add_cidv1_raw_leaves [OF apply_add_version_raw r2]
    by (simp add: UnixfsAddDefaults_def)
qed

subsection \<open>The Write resolver\<close>

text \<open>
  The CID version rules of Write give the errors of Add: a hash function other than
  sha2-256 with version 0 fails with UnsupportedCombination, with a version other than
  0, 1 and -1 it fails with UnknownCidVersion.
\<close>

lemma write_cid_version_errors:
  assumes "applyOpts opts UnixfsWriteDefaults = Inr s" and "write_MhType s \<noteq> SHA2_256"
  shows "(write_CidVersion s = 0 \<longrightarrow>
           UnixfsWriteOptions opts = (None, Prefix_zero, Some UnsupportedCombination))
       \<and> (write_CidVersion s \<noteq> 0 \<and> write_CidVersion s \<noteq> 1 \<and> write_CidVersion s \<noteq> - 1 \<longrightarrow>
           UnixfsWriteOptions opts
             = (None, Prefix_zero, Some (UnknownCidVersion (write_CidVersion s))))"
  using assms(2) by (simp add: write_result [OF assms(1)])

text \<open>
  The raw-leaves rule of Write carries the comment of Add's rule, "cidV1 -> raw blocks (by
  default)", but tests \<open>RawLeaves\<close> where Add tests \<open>RawLeavesSet\<close>. Its second condition
  has no effect: the rule sets rawLeaves to true whenever the version is above 0.
\<close>

lemma writeRawLeavesRule_guard_dead:
  "writeRawLeavesRule options =
     (if write_CidVersion options > 0 then options\<lparr>write_RawLeaves := True\<rparr> else options)"
  by (simp add: writeRawLeavesRule_def)

text \<open>
  Claim C4 says that in the Write resolver an explicit WriteRawLeaves(false) is kept when
  the resolved cidVersion is 1. The code at the input WriteCidVersion(1),
  WriteRawLeaves(false): the options leave rawLeaves false, and the resolver returns
  rawLeaves true, the same result as for WriteCidVersion(1) alone. The Add resolver at
  the corresponding input CidVersion(1), RawLeaves(false) returns rawLeaves false.
\<close>

theorem write_explicit_raw_leaves_overridden:
  "applyOpts [Unixfs_WriteCidVersion 1, Unixfs_WriteRawLeaves False] UnixfsWriteDefaults
     = Inr (UnixfsWriteDefaults\<lparr>write_CidVersion := 1, write_RawLeaves := False\<rparr>)
   \<and> UnixfsWriteOptions [Unixfs_WriteCidVersion 1, Unixfs_WriteRawLeaves False]
     = (Some (UnixfsWriteDefaults\<lparr>write_CidVersion := 1, write_RawLeaves := True\<rparr>),
        \<lparr>pfx_Version = 1, pfx_Codec = DagProtobuf, pfx_MhType = SHA2_256, pfx_MhLength = - 1\<rparr>,
        None)
   \<and> write_RawLeaves (UnixfsWriteDefaults\<lparr>write_CidVersion := 1, write_RawLeaves := True\<rparr>)
     = True
   \<and> UnixfsWriteOptions [Unixfs_WriteCidVersion 1, Unixfs_WriteRawLeaves False]
     = UnixfsWriteOptions [Unixfs_WriteCidVersion 1]
   \<and> UnixfsAddOptions [Unixfs_CidVersion 1, Unixfs_RawLeaves False]
     = (Some (UnixfsAddDefaults\<lparr>add_CidVersion := 1, add_RawLeaves := False,
                add_RawLeavesSet := True\<rparr>),
        \<lparr>pfx_Version = 1, pfx_Codec = DagProtobuf, pfx_MhType = SHA2_256, pfx_MhLength = - 1\<rparr>,
        None)
   \<and> add_RawLeaves (UnixfsAddDefaults\<lparr>add_CidVersion := 1, add_RawLeaves := False,
                add_RawLeavesSet := True\<rparr>)
     = False"
  by (simp add: write_defs add_defs UnixfsWriteDefaults_def UnixfsAddDefaults_def
      write_option_defs add_option_defs)

subsection \<open>The resolved CID version\<close>

text \<open>
  Whenever UnixfsAddOptions, UnixfsWriteOptions or UnixfsMkdirOptions succeeds, the
  cidVersion of the returned settings is exactly 0 or exactly 1, never the unset
  sentinel -1 or another value.
\<close>

lemma resolved_cid_version_invariant:
  "(snd (snd (UnixfsAddOptions aopts)) = None \<longrightarrow>
      map_option add_CidVersion (fst (UnixfsAddOptions aopts)) \<in> {Some 0, Some 1})
   \<and> (snd (snd (UnixfsWriteOptions wopts)) = None \<longrightarrow>
      map_option write_CidVersion (fst (UnixfsWriteOptions wopts)) \<in> {Some 0, Some 1})
   \<and> (snd (snd (UnixfsMkdirOptions mopts)) = None \<longrightarrow>
      map_option mkdir_CidVersion (fst (UnixfsMkdirOptions mopts)) \<in> {Some 0, Some 1})"
proof (intro conjI impI)
  assume "snd (snd (UnixfsAddOptions aopts)) = None"
  then show "map_option add_CidVersion (fst (UnixfsAddOptions aopts)) \<in> {Some 0, Some 1}"
    using add_success [of aopts] by auto
next
  assume "snd (snd (UnixfsWriteOptions wopts)) = None"
  then show "map_option write_CidVersion (fst (UnixfsWriteOptions wopts)) \<in> {Some 0, Some 1}"
    using write_success [of wopts] by auto
next
  assume "snd (snd (UnixfsMkdirOptions mopts)) = None"
  then show "map_option mkdir_CidVersion (fst (UnixfsMkdirOptions mopts)) \<in> {Some 0, Some 1}"
    using mkdir_success [of mopts] by auto
qed

text \<open>
  Which versions left by the options are accepted. Under a hash function other than
  sha2-256 only 1 and the sentinel -1 are; under sha2-256 every version of at most 1 is,
  so every negative version is taken for the sentinel there. (For Add, outside the
  no-copy conflict.)
\<close>

lemma add_accepted_versions:
  assumes "applyOpts opts UnixfsAddDefaults = Inr s"
    and "\<not> (add_NoCopy s \<and> \<not> add_RawLeaves s \<and> add_RawLeavesSet s)"
  shows "snd (snd (UnixfsAddOptions opts)) = None \<longleftrightarrow>
     (if add_MhType s \<noteq> SHA2_256 then add_CidVersion s = 1 \<or> add_CidVersion s = - 1
      else add_CidVersion s \<le> 1)"
  using assms(2) by (auto simp: add_result [OF assms(1)])

lemma write_accepted_versions:
  assumes "applyOpts opts UnixfsWriteDefaults = Inr s"
  shows "snd (snd (UnixfsWriteOptions opts)) = None \<longleftrightarrow>
     (if write_MhType s \<noteq> SHA2_256 then write_CidVersion s = 1 \<or> write_CidVersion s = - 1
      else write_CidVersion s \<le> 1)"
  by (auto simp: write_result [OF assms])

lemma mkdir_accepted_versions:
  assumes "applyOpts opts UnixfsMkdirDefaults = Inr s"
  shows "snd (snd (UnixfsMkdirOptions opts)) = None \<longleftrightarrow>
     (if mkdir_MhType s \<noteq> SHA2_256 then mkdir_CidVersion s = 1 \<or> mkdir_CidVersion s = - 1
      else mkdir_CidVersion s \<le> 1)"
  by (auto simp: mkdir_result [OF assms])


subsection \<open>The default CID version\<close>

text \<open>
  Claim C6, as amended. For every option sequence that leaves the hash function at the
  sha2-256 default and cidVersion at the unset sentinel -1, the Write and Mkdir resolvers
  succeed with cidVersion 0, and so does the Add resolver unless its no-copy rule rejects
  the sequence (noCopy true, rawLeaves false and rawLeaves explicitly set).
\<close>

theorem default_cid_version_0:
  "(applyOpts aopts UnixfsAddDefaults = Inr sa \<and> add_MhType sa = SHA2_256
      \<and> add_CidVersion sa = - 1
      \<and> \<not> (add_NoCopy sa \<and> \<not> add_RawLeaves sa \<and> add_RawLeavesSet sa) \<longrightarrow>
      snd (snd (UnixfsAddOptions aopts)) = None
      \<and> map_option add_CidVersion (fst (UnixfsAddOptions aopts)) = Some 0)
   \<and> (applyOpts wopts UnixfsWriteDefaults = Inr sw \<and> write_MhType sw = SHA2_256
      \<and> write_CidVersion sw = - 1 \<longrightarrow>
      snd (snd (UnixfsWriteOptions wopts)) = None
      \<and> map_option write_CidVersion (fst (UnixfsWriteOptions wopts)) = Some 0)
   \<and> (applyOpts mopts UnixfsMkdirDefaults = Inr sm \<and> mkdir_MhType sm = SHA2_256
      \<and> mkdir_CidVersion sm = - 1 \<longrightarrow>
      snd (snd (UnixfsMkdirOptions mopts)) = None
      \<and> map_option mkdir_CidVersion (fst (UnixfsMkdirOptions mopts)) = Some 0)"
proof (intro conjI impI)
  assume h: "applyOpts aopts UnixfsAddDefaults = Inr sa \<and> add_MhType sa = SHA2_256
      \<and> add_CidVersion sa = - 1
      \<and> \<not> (add_NoCopy sa \<and> \<not> add_RawLeaves sa \<and> add_RawLeavesSet sa)"
  then have r: "applyOpts aopts UnixfsAddDefaults = Inr sa"
    by simp
  show "snd (snd (UnixfsAddOptions aopts)) = None"
    using h by (auto simp: add_result [OF r])
  show "map_option add_CidVersion (fst (UnixfsAddOptions aopts)) = Some 0"
    using h by (auto simp: add_result [OF r])
next
  assume h: "applyOpts wopts UnixfsWriteDefaults = Inr sw \<and> write_MhType sw = SHA2_256
      \<and> write_CidVersion sw = - 1"
  then have r: "applyOpts wopts UnixfsWriteDefaults = Inr sw"
    by simp
  show "snd (snd (UnixfsWriteOptions wopts)) = None"
    using h by (simp add: write_result [OF r])
  show "map_option write_CidVersion (fst (UnixfsWriteOptions wopts)) = Some 0"
    using h by (simp add: write_result [OF r])
next
  assume h: "applyOpts mopts UnixfsMkdirDefaults = Inr sm \<and> mkdir_MhType sm = SHA2_256
      \<and> mkdir_CidVersion sm = - 1"
  then have r: "applyOpts mopts UnixfsMkdirDefaults = Inr sm"
    by simp
  show "snd (snd (UnixfsMkdirOptions mopts)) = None"
    using h by (simp add: mkdir_result [OF r])
  show "map_option mkdir_CidVersion (fst (UnixfsMkdirOptions mopts)) = Some 0"
    using h by (simp add: mkdir_result [OF r])
qed

theorem default_cid_version_0_witness:
  "snd (snd (UnixfsAddOptions [])) = None
   \<and> map_option add_CidVersion (fst (UnixfsAddOptions [])) = Some 0
   \<and> snd (snd (UnixfsWriteOptions [])) = None
   \<and> map_option write_CidVersion (fst (UnixfsWriteOptions [])) = Some 0
   \<and> snd (snd (UnixfsMkdirOptions [])) = None
   \<and> map_option mkdir_CidVersion (fst (UnixfsMkdirOptions [])) = Some 0"
proof -
  have ha: "applyOpts [] UnixfsAddDefaults = Inr UnixfsAddDefaults
      \<and> add_MhType UnixfsAddDefaults = SHA2_256 \<and> add_CidVersion UnixfsAddDefaults = - 1
      \<and> \<not> (add_NoCopy UnixfsAddDefaults \<and> \<not> add_RawLeaves UnixfsAddDefaults
            \<and> add_RawLeavesSet UnixfsAddDefaults)"
    by (simp add: UnixfsAddDefaults_def)
  have hw: "applyOpts [] UnixfsWriteDefaults = Inr UnixfsWriteDefaults
      \<and> write_MhType UnixfsWriteDefaults = SHA2_256
      \<and> write_CidVersion UnixfsWriteDefaults = - 1"
    by (simp add: UnixfsWriteDefaults_def)
  have hm: "applyOpts [] UnixfsMkdirDefaults = Inr UnixfsMkdirDefaults
      \<and> mkdir_MhType UnixfsMkdirDefaults = SHA2_256
      \<and> mkdir_CidVersion UnixfsMkdirDefaults = - 1"
    by (simp add: UnixfsMkdirDefaults_def)
  show ?thesis
    using ha hw hm
      default_cid_version_0 [of "[]" UnixfsAddDefaults "[]" UnixfsWriteDefaults
        "[]" UnixfsMkdirDefaults]
    by blast
qed

text \<open>
  The claim as stated fails for Add: Nocopy(true) and RawLeaves(false) leave the hash
  function at sha2-256 and cidVersion unset, and the resolver returns the
  ConflictingOption error and no settings.
\<close>

theorem add_default_cid_version_counterexample:
  "applyOpts [Unixfs_Nocopy True, Unixfs_RawLeaves False] UnixfsAddDefaults
     = Inr (UnixfsAddDefaults\<lparr>add_NoCopy := True, add_RawLeaves := False,
              add_RawLeavesSet := True\<rparr>)
   \<and> add_MhType (UnixfsAddDefaults\<lparr>add_NoCopy := True, add_RawLeaves := False,
              add_RawLeavesSet := True\<rparr>) = SHA2_256
   \<and> add_CidVersion (UnixfsAddDefaults\<lparr>add_NoCopy := True, add_RawLeaves := False,
              add_RawLeavesSet := True\<rparr>) = - 1
   \<and> UnixfsAddOptions [Unixfs_Nocopy True, Unixfs_RawLeaves False]
     = (None, Prefix_zero, Some ConflictingOption)"
  by (simp add: add_defs UnixfsAddDefaults_def add_option_defs)

subsection \<open>The returned prefix\<close>

text \<open>
  Claim C7. For every option sequence on which UnixfsAddOptions, UnixfsWriteOptions or
  UnixfsMkdirOptions succeeds, the returned CID prefix has the hash length -1, the
  compute-from-digest sentinel, and its hash code is the hash function of the resolved
  settings.
\<close>

theorem prefix_length_sentinel:
  "(snd (snd (UnixfsAddOptions aopts)) = None \<longrightarrow>
      pfx_MhLength (fst (snd (UnixfsAddOptions aopts))) = - 1
      \<and> map_option add_MhType (fst (UnixfsAddOptions aopts))
          = Some (pfx_MhType (fst (snd (UnixfsAddOptions aopts)))))
   \<and> (snd (snd (UnixfsWriteOptions wopts)) = None \<longrightarrow>
      pfx_MhLength (fst (snd (UnixfsWriteOptions wopts))) = - 1
      \<and> map_option write_MhType (fst (UnixfsWriteOptions wopts))
          = Some (pfx_MhType (fst (snd (UnixfsWriteOptions wopts)))))
   \<and> (snd (snd (UnixfsMkdirOptions mopts)) = None \<longrightarrow>
      pfx_MhLength (fst (snd (UnixfsMkdirOptions mopts))) = - 1
      \<and> map_option mkdir_MhType (fst (UnixfsMkdirOptions mopts))
          = Some (pfx_MhType (fst (snd (UnixfsMkdirOptions mopts)))))"
proof (intro conjI impI)
  assume h: "snd (snd (UnixfsAddOptions aopts)) = None"
  show "pfx_MhLength (fst (snd (UnixfsAddOptions aopts))) = - 1"
    using add_success [OF h] by auto
  show "map_option add_MhType (fst (UnixfsAddOptions aopts))
          = Some (pfx_MhType (fst (snd (UnixfsAddOptions aopts))))"
    using add_success [OF h] by auto
next
  assume h: "snd (snd (UnixfsWriteOptions wopts)) = None"
  show "pfx_MhLength (fst (snd (UnixfsWriteOptions wopts))) = - 1"
    using write_success [OF h] by auto
  show "map_option write_MhType (fst (UnixfsWriteOptions wopts))
          = Some (pfx_MhType (fst (snd (UnixfsWriteOptions wopts))))"
    using write_success [OF h] by auto
next
  assume h: "snd (snd (UnixfsMkdirOptions mopts)) = None"
  show "pfx_MhLength (fst (snd (UnixfsMkdirOptions mopts))) = - 1"
    using mkdir_success [OF h] by auto
  show "map_option mkdir_MhType (fst (UnixfsMkdirOptions mopts))
          = Some (pfx_MhType (fst (snd (UnixfsMkdirOptions mopts))))"
    using mkdir_success [OF h] by auto
qed

text \<open>
  The valid pairs of version and hash function at concrete inputs: version 1 with
  sha2-512 (Add), version 0 with sha2-256 (Write), version 1 with sha2-256 (Mkdir).
\<close>

theorem prefix_length_sentinel_witness:
  "pfx_MhLength (fst (snd (UnixfsAddOptions [Unixfs_Hash SHA2_512]))) = - 1
   \<and> map_option add_MhType (fst (UnixfsAddOptions [Unixfs_Hash SHA2_512]))
       = Some (pfx_MhType (fst (snd (UnixfsAddOptions [Unixfs_Hash SHA2_512]))))
   \<and> pfx_MhType (fst (snd (UnixfsAddOptions [Unixfs_Hash SHA2_512]))) = SHA2_512
   \<and> pfx_MhLength (fst (snd (UnixfsWriteOptions []))) = - 1
   \<and> map_option write_MhType (fst (UnixfsWriteOptions []))
       = Some (pfx_MhType (fst (snd (UnixfsWriteOptions []))))
   \<and> pfx_Version (fst (snd (UnixfsWriteOptions []))) = 0
   \<and> pfx_MhLength
       (fst (snd (UnixfsMkdirOptions [Unixfs_MkdirHash SHA2_256, Unixfs_MkdirCidVersion 1])))
       = - 1
   \<and> map_option mkdir_MhType
       (fst (UnixfsMkdirOptions [Unixfs_MkdirHash SHA2_256, Unixfs_MkdirCidVersion 1]))
       = Some (pfx_MhType
           (fst (snd (UnixfsMkdirOptions [Unixfs_MkdirHash SHA2_256, Unixfs_MkdirCidVersion 1]))))
   \<and> pfx_Version
       (fst (snd (UnixfsMkdirOptions [Unixfs_MkdirHash SHA2_256, Unixfs_MkdirCidVersion 1])))
       = 1"
proof -
  let ?m = "[Unixfs_MkdirHash SHA2_256, Unixfs_MkdirCidVersion 1]"
  have ea: "snd (snd (UnixfsAddOptions [Unixfs_Hash SHA2_512])) = None
      \<and> pfx_MhType (fst (snd (UnixfsAddOptions [Unixfs_Hash SHA2_512]))) = SHA2_512"
    by (simp add: add_result [OF apply_add_hash] UnixfsAddDefaults_def SHA2_512_neq_SHA2_256)
  have ew: "snd (snd (UnixfsWriteOptions [])) = None
      \<and> pfx_Version (fst (snd (UnixfsWriteOptions []))) = 0"
    by (simp add: write_result [OF apply_write_empty] UnixfsWriteDefaults_def)
  have em: "snd (snd (UnixfsMkdirOptions ?m)) = None
      \<and> pfx_Version (fst (snd (UnixfsMkdirOptions ?m))) = 1"
    by (simp add: mkdir_result [OF apply_mkdir_hash_version] UnixfsMkdirDefaults_def)
  show ?thesis
    using ea ew em prefix_length_sentinel [of "[Unixfs_Hash SHA2_512]" "[]" ?m]
    by blast
qed

subsection \<open>What is returned beside an error\<close>

text \<open>
  Claim C9. The resolvers are functions of the option sequence alone, and whenever
  UnixfsAddOptions, UnixfsWriteOptions or UnixfsMkdirOptions returns a non-nil error,
  the settings it returns are nil and the prefix is the zero CID prefix: no partly
  resolved settings or prefix is returned for a rejected configuration.
\<close>

theorem error_returns_nil_settings_zero_prefix:
  "(snd (snd (UnixfsAddOptions aopts)) \<noteq> None \<longrightarrow>
      fst (UnixfsAddOptions aopts) = None
      \<and> fst (snd (UnixfsAddOptions aopts)) = Prefix_zero)
   \<and> (snd (snd (UnixfsWriteOptions wopts)) \<noteq> None \<longrightarrow>
      fst (UnixfsWriteOptions wopts) = None
      \<and> fst (snd (UnixfsWriteOptions wopts)) = Prefix_zero)
   \<and> (snd (snd (UnixfsMkdirOptions mopts)) \<noteq> None \<longrightarrow>
      fst (UnixfsMkdirOptions mopts) = None
      \<and> fst (snd (UnixfsMkdirOptions mopts)) = Prefix_zero)"
  using add_failure [of aopts] write_failure [of wopts] mkdir_failure [of mopts]
  by blast

text \<open>The three errors of the resolvers at concrete inputs.\<close>

theorem error_returns_nil_settings_zero_prefix_witness:
  "snd (snd (UnixfsAddOptions [Unixfs_Nocopy True, Unixfs_RawLeaves False]))
     = Some ConflictingOption
   \<and> fst (UnixfsAddOptions [Unixfs_Nocopy True, Unixfs_RawLeaves False]) = None
   \<and> fst (snd (UnixfsAddOptions [Unixfs_Nocopy True, Unixfs_RawLeaves False])) = Prefix_zero
   \<and> snd (snd (UnixfsWriteOptions [Unixfs_WriteHash SHA2_512, Unixfs_WriteCidVersion 0]))
     = Some UnsupportedCombination
   \<and> fst (UnixfsWriteOptions [Unixfs_WriteHash SHA2_512, Unixfs_WriteCidVersion 0]) = None
   \<and> fst (snd (UnixfsWriteOptions [Unixfs_WriteHash SHA2_512, Unixfs_WriteCidVersion 0]))
     = Prefix_zero
   \<and> snd (snd (UnixfsMkdirOptions [Unixfs_MkdirHash SHA2_256, Unixfs_MkdirCidVersion 2]))
     = Some (UnknownCidVersion 2)
   \<and> fst (UnixfsMkdirOptions [Unixfs_MkdirHash SHA2_256, Unixfs_MkdirCidVersion 2]) = None
   \<and> fst (snd (UnixfsMkdirOptions [Unixfs_MkdirHash SHA2_256, Unixfs_MkdirCidVersion 2]))
     = Prefix_zero"
proof -
  let ?a = "[Unixfs_Nocopy True, Unixfs_RawLeaves False]"
  let ?w = "[Unixfs_WriteHash SHA2_512, Unixfs_WriteCidVersion 0]"
  let ?m = "[Unixfs_MkdirHash SHA2_256, Unixfs_MkdirCidVersion 2]"
  have ea: "snd (snd (UnixfsAddOptions ?a)) = Some ConflictingOption"
    by (simp add: add_result [OF apply_add_nocopy_raw] UnixfsAddDefaults_def)
  have ew: "snd (snd (UnixfsWriteOptions ?w)) = Some UnsupportedCombination"
    by (simp add: write_result [OF apply_write_hash_version] UnixfsWriteDefaults_def
        SHA2_512_neq_SHA2_256)
  have em: "snd (snd (UnixfsMkdirOptions ?m)) = Some (UnknownCidVersion 2)"
    by (simp add: mkdir_result [OF apply_mkdir_hash_version] UnixfsMkdirDefaults_def)
  show ?thesis
    using ea ew em error_returns_nil_settings_zero_prefix [of ?a ?w ?m]
    by simp
qed

subsection \<open>The defaults of Ls\<close>

text \<open>
  Claim C10. UnixfsLsOptions called with no options resolves to settings with
  ResolveChildren true and UseCumulativeSize false; ResolveChildren is false only when
  the caller passes ResolveChildren(false).
\<close>

theorem ls_defaults:
  "UnixfsLsOptions []
     = (Some \<lparr>ls_ResolveChildren = True, ls_UseCumulativeSize = False\<rparr>, None)
   \<and> UnixfsLsOptions [Unixfs_ResolveChildren False]
     = (Some \<lparr>ls_ResolveChildren = False, ls_UseCumulativeSize = False\<rparr>, None)"
  by (simp add: UnixfsLsOptions_def UnixfsLsDefaults_def resolved_def Unixfs_ResolveChildren_def)

subsection \<open>Options are applied in the caller's order\<close>

lemma lastOr_Nil [simp]: "lastOr d [] = d"
  by (simp add: lastOr_def)

lemma lastOr_Cons [simp]: "lastOr d (v # vs) = lastOr v vs"
  by (simp add: lastOr_def)

text \<open>
  From any starting settings, a sequence of constructor calls leaves in each field the
  argument of the last call that sets it, or the starting value. A call of \<open>RawLeaves\<close>
  sets two fields: \<open>RawLeaves\<close> to its argument and \<open>RawLeavesSet\<close> to true.
\<close>

lemma add_calls:
  "applyOpts (map addOption cs) s =
     Inr \<lparr>add_CidVersion = lastOr (add_CidVersion s) [v. C_CidVersion v \<leftarrow> cs],
          add_MhType = lastOr (add_MhType s) [v. C_Hash v \<leftarrow> cs],
          add_Inline = lastOr (add_Inline s) [v. C_Inline v \<leftarrow> cs],
          add_InlineLimit = lastOr (add_InlineLimit s) [v. C_InlineLimit v \<leftarrow> cs],
          add_RawLeaves = lastOr (add_RawLeaves s) [v. C_RawLeaves v \<leftarrow> cs],
          add_RawLeavesSet = lastOr (add_RawLeavesSet s) [True. C_RawLeaves v \<leftarrow> cs],
          add_Chunker = lastOr (add_Chunker s) [v. C_Chunker v \<leftarrow> cs],
          add_Layout = lastOr (add_Layout s) [v. C_Layout v \<leftarrow> cs],
          add_Pin = lastOr (add_Pin s) [v. C_Pin v \<leftarrow> cs],
          add_OnlyHash = lastOr (add_OnlyHash s) [v. C_HashOnly v \<leftarrow> cs],
          add_FsCache = lastOr (add_FsCache s) [v. C_FsCache v \<leftarrow> cs],
          add_NoCopy = lastOr (add_NoCopy s) [v. C_Nocopy v \<leftarrow> cs],
          add_Events = lastOr (add_Events s) [v. C_Events v \<leftarrow> cs],
          add_Silent = lastOr (add_Silent s) [v. C_Silent v \<leftarrow> cs],
          add_Progress = lastOr (add_Progress s) [v. C_Progress v \<leftarrow> cs],
          add_ToFiles = lastOr (add_ToFiles s) [v. C_ToFiles v \<leftarrow> cs]\<rparr>"
proof (induction cs arbitrary: s)
  case Nil
  show ?case by simp
next
  case (Cons c cs)
  show ?case by (cases c) (simp_all add: Cons.IH add_option_defs)
qed

lemma write_calls:
  "applyOpts (map writeOption cs) s =
     Inr \<lparr>write_Offset = lastOr (write_Offset s) [v. C_WriteOffset v \<leftarrow> cs],
          write_Create = lastOr (write_Create s) [v. C_Create v \<leftarrow> cs],
          write_Parents = lastOr (write_Parents s) [v. C_WriteParents v \<leftarrow> cs],
          write_Truncate = lastOr (write_Truncate s) [v. C_Truncate v \<leftarrow> cs],
          write_Count = lastOr (write_Count s) [v. C_WriteCount v \<leftarrow> cs],
          write_RawLeaves = lastOr (write_RawLeaves s) [v. C_WriteRawLeaves v \<leftarrow> cs],
          write_CidVersion = lastOr (write_CidVersion s) [v. C_WriteCidVersion v \<leftarrow> cs],
          write_MhType = lastOr (write_MhType s) [v. C_WriteHash v \<leftarrow> cs]\<rparr>"
proof (induction cs arbitrary: s)
  case Nil
  show ?case by simp
next
  case (Cons c cs)
  show ?case by (cases c) (simp_all add: Cons.IH write_option_defs)
qed

lemma mkdir_calls:
  "applyOpts (map mkdirOption cs) s =
     Inr \<lparr>mkdir_Parents = lastOr (mkdir_Parents s) [v. C_Parents v \<leftarrow> cs],
          mkdir_CidVersion = lastOr (mkdir_CidVersion s) [v. C_MkdirCidVersion v \<leftarrow> cs],
          mkdir_MhType = lastOr (mkdir_MhType s) [v. C_MkdirHash v \<leftarrow> cs]\<rparr>"
proof (induction cs arbitrary: s)
  case Nil
  show ?case by simp
next
  case (Cons c cs)
  show ?case by (cases c) (simp_all add: Cons.IH mkdir_option_defs)
qed

lemma ls_calls:
  "applyOpts (map lsOption cs) s =
     Inr \<lparr>ls_ResolveChildren = lastOr (ls_ResolveChildren s) [v. C_ResolveChildren v \<leftarrow> cs],
          ls_UseCumulativeSize =
            lastOr (ls_UseCumulativeSize s) [v. C_UseCumulativeSize v \<leftarrow> cs]\<rparr>"
proof (induction cs arbitrary: s)
  case Nil
  show ?case by simp
next
  case (Cons c cs)
  show ?case
    by (cases c) (simp_all add: Cons.IH Unixfs_ResolveChildren_def Unixfs_UseCumulativeSize_def)
qed

lemma stat_calls:
  "applyOpts (map statOption cs) s =
     Inr \<lparr>stat_Format = lastOr (stat_Format s) [v. C_Format v \<leftarrow> cs],
          stat_Hash = lastOr (stat_Hash s) [v. C_StatHash v \<leftarrow> cs],
          stat_Size = lastOr (stat_Size s) [v. C_StatSize v \<leftarrow> cs],
          stat_WithLocal = lastOr (stat_WithLocal s) [v. C_WithLocal v \<leftarrow> cs]\<rparr>"
proof (induction cs arbitrary: s)
  case Nil
  show ?case by simp
next
  case (Cons c cs)
  show ?case
    by (cases c)
      (simp_all add: Cons.IH Unixfs_Format_def Unixfs_StatHash_def Unixfs_StatSize_def
        Unixfs_WithLocal_def)
qed

lemma read_calls:
  "applyOpts (map readOption cs) s =
     Inr \<lparr>read_Offset = lastOr (read_Offset s) [v. C_Offset v \<leftarrow> cs],
          read_Count = lastOr (read_Count s) [v. C_Count v \<leftarrow> cs]\<rparr>"
proof (induction cs arbitrary: s)
  case Nil
  show ?case by simp
next
  case (Cons c cs)
  show ?case by (cases c) (simp_all add: Cons.IH Unixfs_Offset_def Unixfs_Count_def)
qed

lemma cp_calls:
  "applyOpts (map cpOption cs) s =
     Inr \<lparr>cp_Parents = lastOr (cp_Parents s) [v. C_CpParents v \<leftarrow> cs]\<rparr>"
proof (induction cs arbitrary: s)
  case Nil
  show ?case by simp
next
  case (Cons c cs)
  show ?case by (cases c) (simp_all add: Cons.IH Unixfs_CpParents_def)
qed

lemma rm_calls:
  "applyOpts (map rmOption cs) s =
     Inr \<lparr>rm_Recursive = lastOr (rm_Recursive s) [v. C_Recursive v \<leftarrow> cs],
          rm_Force = lastOr (rm_Force s) [v. C_Force v \<leftarrow> cs]\<rparr>"
proof (induction cs arbitrary: s)
  case Nil
  show ?case by simp
next
  case (Cons c cs)
  show ?case by (cases c) (simp_all add: Cons.IH Unixfs_Recursive_def Unixfs_Force_def)
qed

text \<open>
  Claim C8, as amended. Every option constructor other than RawLeaves mutates exactly one
  field of its settings record, RawLeaves(enable) sets rawLeaves to its argument and also
  sets RawLeavesSet to true, and options are applied strictly in the caller's order. So
  for every sequence of constructor calls the options apply without error and, before
  the implication rules, every field other than RawLeavesSet holds the argument of the
  last call in the sequence that sets it, or its default when no call sets it;
  RawLeavesSet is true when the sequence has a RawLeaves call and false otherwise. For
  Ls, Stat, Read, Cp and Rm, which have no implication rules, these are the resolved
  settings.
\<close>

theorem options_last_call_wins:
  "applyOpts (map addOption acs) UnixfsAddDefaults =
     Inr \<lparr>add_CidVersion = lastOr (- 1) [v. C_CidVersion v \<leftarrow> acs],
          add_MhType = lastOr SHA2_256 [v. C_Hash v \<leftarrow> acs],
          add_Inline = lastOr False [v. C_Inline v \<leftarrow> acs],
          add_InlineLimit = lastOr 32 [v. C_InlineLimit v \<leftarrow> acs],
          add_RawLeaves = lastOr False [v. C_RawLeaves v \<leftarrow> acs],
          add_RawLeavesSet = lastOr False [True. C_RawLeaves v \<leftarrow> acs],
          add_Chunker = lastOr ''size-262144'' [v. C_Chunker v \<leftarrow> acs],
          add_Layout = lastOr BalancedLayout [v. C_Layout v \<leftarrow> acs],
          add_Pin = lastOr False [v. C_Pin v \<leftarrow> acs],
          add_OnlyHash = lastOr False [v. C_HashOnly v \<leftarrow> acs],
          add_FsCache = lastOr False [v. C_FsCache v \<leftarrow> acs],
          add_NoCopy = lastOr False [v. C_Nocopy v \<leftarrow> acs],
          add_Events = lastOr None [v. C_Events v \<leftarrow> acs],
          add_Silent = lastOr False [v. C_Silent v \<leftarrow> acs],
          add_Progress = lastOr False [v. C_Progress v \<leftarrow> acs],
          add_ToFiles = lastOr '''' [v. C_ToFiles v \<leftarrow> acs]\<rparr>
   \<and> applyOpts (map writeOption wcs) UnixfsWriteDefaults =
     Inr \<lparr>write_Offset = lastOr 0 [v. C_WriteOffset v \<leftarrow> wcs],
          write_Create = lastOr False [v. C_Create v \<leftarrow> wcs],
          write_Parents = lastOr False [v. C_WriteParents v \<leftarrow> wcs],
          write_Truncate = lastOr False [v. C_Truncate v \<leftarrow> wcs],
          write_Count = lastOr 0 [v. C_WriteCount v \<leftarrow> wcs],
          write_RawLeaves = lastOr False [v. C_WriteRawLeaves v \<leftarrow> wcs],
          write_CidVersion = lastOr (- 1) [v. C_WriteCidVersion v \<leftarrow> wcs],
          write_MhType = lastOr SHA2_256 [v. C_WriteHash v \<leftarrow> wcs]\<rparr>
   \<and> applyOpts (map mkdirOption mcs) UnixfsMkdirDefaults =
     Inr \<lparr>mkdir_Parents = lastOr False [v. C_Parents v \<leftarrow> mcs],
          mkdir_CidVersion = lastOr (- 1) [v. C_MkdirCidVersion v \<leftarrow> mcs],
          mkdir_MhType = lastOr SHA2_256 [v. C_MkdirHash v \<leftarrow> mcs]\<rparr>
   \<and> UnixfsLsOptions (map lsOption lcs) =
     (Some \<lparr>ls_ResolveChildren = lastOr True [v. C_ResolveChildren v \<leftarrow> lcs],
            ls_UseCumulativeSize = lastOr False [v. C_UseCumulativeSize v \<leftarrow> lcs]\<rparr>,
      None)
   \<and> UnixfsStatOptions (map statOption scs) =
     (Some \<lparr>stat_Format = lastOr '''' [v. C_Format v \<leftarrow> scs],
            stat_Hash = lastOr False [v. C_StatHash v \<leftarrow> scs],
            stat_Size = lastOr False [v. C_StatSize v \<leftarrow> scs],
            stat_WithLocal = lastOr False [v. C_WithLocal v \<leftarrow> scs]\<rparr>,
      None)
   \<and> UnixfsReadOptions (map readOption rcs) =
     (Some \<lparr>read_Offset = lastOr 0 [v. C_Offset v \<leftarrow> rcs],
            read_Count = lastOr 0 [v. C_Count v \<leftarrow> rcs]\<rparr>,
      None)
   \<and> UnixfsCpOptions (map cpOption ccs) =
     (Some \<lparr>cp_Parents = lastOr False [v. C_CpParents v \<leftarrow> ccs]\<rparr>, None)
   \<and> UnixfsRmOptions (map rmOption dcs) =
     (Some \<lparr>rm_Recursive = lastOr False [v. C_Recursive v \<leftarrow> dcs],
            rm_Force = lastOr False [v. C_Force v \<leftarrow> dcs]\<rparr>,
      None)"
proof (intro conjI)
  show "applyOpts (map addOption acs) UnixfsAddDefaults =
     Inr \<lparr>add_CidVersion = lastOr (- 1) [v. C_CidVersion v \<leftarrow> acs],
          add_MhType = lastOr SHA2_256 [v. C_Hash v \<leftarrow> acs],
          add_Inline = lastOr False [v. C_Inline v \<leftarrow> acs],
          add_InlineLimit = lastOr 32 [v. C_InlineLimit v \<leftarrow> acs],
          add_RawLeaves = lastOr False [v. C_RawLeaves v \<leftarrow> acs],
          add_RawLeavesSet = lastOr False [True. C_RawLeaves v \<leftarrow> acs],
          add_Chunker = lastOr ''size-262144'' [v. C_Chunker v \<leftarrow> acs],
          add_Layout = lastOr BalancedLayout [v. C_Layout v \<leftarrow> acs],
          add_Pin = lastOr False [v. C_Pin v \<leftarrow> acs],
          add_OnlyHash = lastOr False [v. C_HashOnly v \<leftarrow> acs],
          add_FsCache = lastOr False [v. C_FsCache v \<leftarrow> acs],
          add_NoCopy = lastOr False [v. C_Nocopy v \<leftarrow> acs],
          add_Events = lastOr None [v. C_Events v \<leftarrow> acs],
          add_Silent = lastOr False [v. C_Silent v \<leftarrow> acs],
          add_Progress = lastOr False [v. C_Progress v \<leftarrow> acs],
          add_ToFiles = lastOr '''' [v. C_ToFiles v \<leftarrow> acs]\<rparr>"
    unfolding add_calls by (simp add: UnixfsAddDefaults_def)
  show "applyOpts (map writeOption wcs) UnixfsWriteDefaults =
     Inr \<lparr>write_Offset = lastOr 0 [v. C_WriteOffset v \<leftarrow> wcs],
          write_Create = lastOr False [v. C_Create v \<leftarrow> wcs],
          write_Parents = lastOr False [v. C_WriteParents v \<leftarrow> wcs],
          write_Truncate = lastOr False [v. C_Truncate v \<leftarrow> wcs],
          write_Count = lastOr 0 [v. C_WriteCount v \<leftarrow> wcs],
          write_RawLeaves = lastOr False [v. C_WriteRawLeaves v \<leftarrow> wcs],
          write_CidVersion = lastOr (- 1) [v. C_WriteCidVersion v \<leftarrow> wcs],
          write_MhType = lastOr SHA2_256 [v. C_WriteHash v \<leftarrow> wcs]\<rparr>"
    unfolding write_calls by (simp add: UnixfsWriteDefaults_def)
  show "applyOpts (map mkdirOption mcs) UnixfsMkdirDefaults =
     Inr \<lparr>mkdir_Parents = lastOr False [v. C_Parents v \<leftarrow> mcs],
          mkdir_CidVersion = lastOr (- 1) [v. C_MkdirCidVersion v \<leftarrow> mcs],
          mkdir_MhType = lastOr SHA2_256 [v. C_MkdirHash v \<leftarrow> mcs]\<rparr>"
    unfolding mkdir_calls by (simp add: UnixfsMkdirDefaults_def)
  show "UnixfsLsOptions (map lsOption lcs) =
     (Some \<lparr>ls_ResolveChildren = lastOr True [v. C_ResolveChildren v \<leftarrow> lcs],
            ls_UseCumulativeSize = lastOr False [v. C_UseCumulativeSize v \<leftarrow> lcs]\<rparr>,
      None)"
    unfolding UnixfsLsOptions_def ls_calls by (simp add: resolved_def UnixfsLsDefaults_def)
  show "UnixfsStatOptions (map statOption scs) =
     (Some \<lparr>stat_Format = lastOr '''' [v. C_Format v \<leftarrow> scs],
            stat_Hash = lastOr False [v. C_StatHash v \<leftarrow> scs],
            stat_Size = lastOr False [v. C_StatSize v \<leftarrow> scs],
            stat_WithLocal = lastOr False [v. C_WithLocal v \<leftarrow> scs]\<rparr>,
      None)"
    unfolding UnixfsStatOptions_def stat_calls
    by (simp add: resolved_def UnixfsStatDefaults_def)
  show "UnixfsReadOptions (map readOption rcs) =
     (Some \<lparr>read_Offset = lastOr 0 [v. C_Offset v \<leftarrow> rcs],
            read_Count = lastOr 0 [v. C_Count v \<leftarrow> rcs]\<rparr>,
      None)"
    unfolding UnixfsReadOptions_def read_calls
    by (simp add: resolved_def UnixfsReadDefaults_def)
  show "UnixfsCpOptions (map cpOption ccs) =
     (Some \<lparr>cp_Parents = lastOr False [v. C_CpParents v \<leftarrow> ccs]\<rparr>, None)"
    unfolding UnixfsCpOptions_def cp_calls by (simp add: resolved_def UnixfsCpDefaults_def)
  show "UnixfsRmOptions (map rmOption dcs) =
     (Some \<lparr>rm_Recursive = lastOr False [v. C_Recursive v \<leftarrow> dcs],
            rm_Force = lastOr False [v. C_Force v \<leftarrow> dcs]\<rparr>,
      None)"
    unfolding UnixfsRmOptions_def rm_calls by (simp add: resolved_def UnixfsRmDefaults_def)
qed

text \<open>
  The claim as stated fails for the RawLeaves constructor: applied to the defaults,
  RawLeaves(true) changes two fields, rawLeaves and RawLeavesSet, and RawLeavesSet does
  not keep its default.
\<close>

theorem raw_leaves_sets_two_fields_counterexample:
  "Unixfs_RawLeaves True UnixfsAddDefaults
     = Inr (UnixfsAddDefaults\<lparr>add_RawLeaves := True, add_RawLeavesSet := True\<rparr>)
   \<and> add_RawLeaves UnixfsAddDefaults = False
   \<and> add_RawLeavesSet UnixfsAddDefaults = False
   \<and> add_RawLeaves (UnixfsAddDefaults\<lparr>add_RawLeaves := True, add_RawLeavesSet := True\<rparr>)
     = True
   \<and> add_RawLeavesSet (UnixfsAddDefaults\<lparr>add_RawLeaves := True, add_RawLeavesSet := True\<rparr>)
     = True"
  by (simp add: Unixfs_RawLeaves_def UnixfsAddDefaults_def)

end
